theory Spec2Isabelle
  imports Complex_Main "HOL-Library.Multiset"
begin

section \<open>The scoring core of XplainIQ lite\<close>

text \<open>
  The development embeds the scoring pipeline of \<^verbatim>\<open>XplainIQLite.py\<close> (the catalogs
  \<^verbatim>\<open>PILLARS\<close> and \<^verbatim>\<open>TIER_BANDS\<close> and the functions \<^verbatim>\<open>tier_for\<close>,
  \<^verbatim>\<open>pillar_commentary\<close>, \<^verbatim>\<open>compute_scores\<close>, \<^verbatim>\<open>derive_strengths_gaps\<close> and
  \<^verbatim>\<open>recommend_actions\<close>) and, separately, the copy of the same pipeline in
  \<^verbatim>\<open>XplainIQLite_Final.py\<close>.

  Conventions of the embedding:
  \<^item> a Python \<^verbatim>\<open>int\<close> is an \<^typ>\<open>int\<close>;
  \<^item> a finite Python \<^verbatim>\<open>float\<close> is the rational number it denotes (\<^typ>\<open>rat\<close>), and the
    arithmetic of \<^verbatim>\<open>compute_scores\<close> is exact. For ratings between 0 and 5 the exact
    results are the ones the interpreter computes: a pillar score is one of
    0, 10, ..., 100 and every partial sum of the overall score is a multiple of ten up to
    500. For other ratings the interpreter rounds (and fails on quotients too large for
    a float), so nothing is stated here about the value of a score there;
  \<^item> where a function receives a float from outside, the type \<open>py_float\<close> adds the two
    infinities and NaN to the finite values;
  \<^item> a Python \<^verbatim>\<open>str\<close> is a \<^typ>\<open>string\<close>; the two characters of the source that are not
    ASCII (the en dash and the multiplication sign) are written as their UTF-8 bytes.
    \<^verbatim>\<open>str.lower()\<close> follows the Unicode tables and is a parameter \<open>lower\<close> of the
    functions that call it;
  \<^item> the answer dictionary is a map \<^typ>\<open>string \<rightharpoonup> int\<close>; the per-question detail
    dictionary \<^verbatim>\<open>dict(zip(qids, vals))\<close> is the association list \<open>zip qids vals\<close>
    (the question identifiers of a pillar are distinct, so no entry is overwritten);
  \<^item> an exception is a value \<open>Inl e\<close> of a sum type.
\<close>

subsection \<open>Python built-ins used by the core\<close>

datatype py_error = ZeroDivisionError | ValueError | OverflowError

datatype py_float = Finite rat | PosInf | NegInf | NaN

text \<open>\<^verbatim>\<open>round(x)\<close> with one argument: the nearest integer, a tie going to the even one.\<close>

definition py_round :: "rat \<Rightarrow> int" where
  "py_round x =
     (let f = \<lfloor>x\<rfloor>; d = x - of_int f
      in if d < 1 / 2 then f
         else if 1 / 2 < d then f + 1
         else if even f then f else f + 1)"

text \<open>
  \<^verbatim>\<open>round(x)\<close> on any float: NaN raises \<^verbatim>\<open>ValueError\<close>, an infinity \<^verbatim>\<open>OverflowError\<close>.
\<close>

definition py_round_float :: "py_float \<Rightarrow> py_error + int" where
  "py_round_float x =
     (case x of
        Finite r \<Rightarrow> Inr (py_round r)
      | NaN \<Rightarrow> Inl ValueError
      | PosInf \<Rightarrow> Inl OverflowError
      | NegInf \<Rightarrow> Inl OverflowError)"

text \<open>
  \<^verbatim>\<open>sorted(xs, key=k, reverse=r)\<close>: a stable sort; with \<^verbatim>\<open>reverse=True\<close> the list is
  reversed, sorted and reversed again, which keeps equal keys in their input order.
\<close>

definition py_sorted :: "('a \<Rightarrow> rat) \<Rightarrow> bool \<Rightarrow> 'a list \<Rightarrow> 'a list" where
  "py_sorted k r xs = (if r then rev (sort_key k (rev xs)) else sort_key k xs)"

text \<open>The slices \<^verbatim>\<open>xs[:n]\<close> and \<^verbatim>\<open>xs[-n:]\<close> for a positive literal \<open>n\<close>.\<close>

definition py_first :: "nat \<Rightarrow> 'a list \<Rightarrow> 'a list" where
  "py_first n xs = take n xs"

definition py_last :: "nat \<Rightarrow> 'a list \<Rightarrow> 'a list" where
  "py_last n xs = drop (length xs - n) xs"

text \<open>\<^verbatim>\<open>dict.get(key, default)\<close>.\<close>

definition py_get :: "('k \<rightharpoonup> 'v) \<Rightarrow> 'k \<Rightarrow> 'v \<Rightarrow> 'v" where
  "py_get m k d = (case m k of None \<Rightarrow> d | Some v \<Rightarrow> v)"

text \<open>
  What \<^verbatim>\<open>str.lower()\<close> does on ASCII text: the letters A to Z are mapped to a to z. It
  serves as an instance of the parameter \<open>lower\<close> on ASCII names only.
\<close>

definition ascii_lower_char :: "char \<Rightarrow> char" where
  "ascii_lower_char c =
     (let n = (of_char c :: nat) in if 65 \<le> n \<and> n \<le> 90 then char_of (n + 32) else c)"

definition ascii_lower :: "string \<Rightarrow> string" where
  "ascii_lower s = map ascii_lower_char s"

definition en_dash :: string where
  "en_dash = [CHR 0xE2, CHR 0x80, CHR 0x93]"

definition times_sign :: string where
  "times_sign = [CHR 0xC3, CHR 0x97]"

subsection \<open>Catalogs of \<^verbatim>\<open>XplainIQLite.py\<close>\<close>

type_synonym answers = "string \<rightharpoonup> int"
type_synonym detail = "(string \<times> int) list"
type_synonym pillar_score = "string \<times> rat \<times> detail"

definition PILLARS :: "(string \<times> string list) list" where
  "PILLARS =
     [(''A. Channel Strategy & Alignment'', [''A1'', ''A2'']),
      (''B. Partner Program Design'', [''B1'', ''B2'']),
      (''C. Partner Enablement & Engagement'', [''C1'', ''C2'']),
      (''D. Sales & Operations Integration'', [''D1'', ''D2'']),
      (''E. Growth Readiness'', [''E1'', ''E2''])]"

definition TIER_BANDS :: "(string \<times> int \<times> int) list" where
  "TIER_BANDS =
     [(''Emerging'', 0, 39),
      (''Developing'', 40, 59),
      (''Established'', 60, 79),
      (''Optimized'', 80, 100)]"

subsection \<open>Scoring logic of \<^verbatim>\<open>XplainIQLite.py\<close>\<close>

text \<open>The loop of \<^verbatim>\<open>tier_for\<close>: the first band containing \<open>s\<close> wins, else \<^verbatim>\<open>"Unknown"\<close>.\<close>

fun tier_scan :: "int \<Rightarrow> (string \<times> int \<times> int) list \<Rightarrow> string" where
  "tier_scan s [] = ''Unknown''"
| "tier_scan s ((name, lo, hi) # bands) =
     (if lo \<le> s \<and> s \<le> hi then name else tier_scan s bands)"

text \<open>\<^verbatim>\<open>tier_for\<close> on a finite score: \<^verbatim>\<open>round\<close> cannot fail there.\<close>

definition tier_for :: "rat \<Rightarrow> string" where
  "tier_for score = (let s = py_round score in tier_scan s TIER_BANDS)"

text \<open>
  \<^verbatim>\<open>tier_for\<close> on any float: an exception of \<^verbatim>\<open>round(score)\<close> leaves the function before
  the loop starts.
\<close>

definition tier_for_float :: "py_float \<Rightarrow> py_error + string" where
  "tier_for_float score =
     (case py_round_float score of
        Inl e \<Rightarrow> Inl e
      | Inr s \<Rightarrow> Inr (tier_scan s TIER_BANDS))"

definition pillar_commentary :: "string \<Rightarrow> rat \<Rightarrow> string" where
  "pillar_commentary pillar_name pscore =
     (if 80 \<le> pscore then
        pillar_name @ '' is strong and scalable '' @ en_dash @ '' keep reinforcing what works.''
      else if 60 \<le> pscore then
        pillar_name @ '' shows a solid foundation with room to standardize and scale.''
      else if 40 \<le> pscore then
        pillar_name @ '' is emerging '' @ en_dash
          @ '' formalize structure, cadence, and measurement.''
      else
        pillar_name @ '' is underdeveloped '' @ en_dash
          @ '' prioritize core mechanics and minimum viable structure.'')"

text \<open>The body of the loop of \<^verbatim>\<open>compute_scores\<close> for one pillar of the catalog.\<close>

definition pillar_entry :: "answers \<Rightarrow> string \<times> string list \<Rightarrow> pillar_score" where
  "pillar_entry answers p =
     (case p of (pname, qids) \<Rightarrow>
        let vals = map (\<lambda>q. py_get answers q 0) qids;
            pscore = (if vals = [] \<or> list_all (\<lambda>v. v = 0) vals then 0
                      else (of_int (sum_list vals) / of_nat (length vals)) / 5 * 100)
        in (pname, pscore, zip qids vals))"

text \<open>
  \<^verbatim>\<open>compute_scores\<close>: the division by \<^verbatim>\<open>len(pillar_scores)\<close> raises on an empty catalog.
\<close>

definition compute_scores :: "answers \<Rightarrow> py_error + (pillar_score list \<times> rat)" where
  "compute_scores answers =
     (let pillar_scores = map (pillar_entry answers) PILLARS
      in if length pillar_scores = 0 then Inl ZeroDivisionError
         else Inr (pillar_scores,
                   sum_list (map (\<lambda>p. fst (snd p)) pillar_scores)
                     / of_nat (length pillar_scores)))"

definition derive_strengths_gaps :: "pillar_score list \<Rightarrow> string list \<times> string list" where
  "derive_strengths_gaps ps =
     (let sorted_p = py_sorted (\<lambda>x. fst (snd x)) True ps;
          strengths = map fst (py_first 2 sorted_p);
          gaps = map fst (py_last 3 sorted_p)
      in (strengths, gaps))"

definition playbook :: "string \<rightharpoonup> string" where
  "playbook = map_of
     [(''A. Channel Strategy & Alignment'',
       ''Clarify the partner role by segment and set a 12-month channel thesis with 3 measurable outcomes.''),
      (''B. Partner Program Design'',
       ''Publish a simple one-pager: tiers, incentives, rules of engagement, and co-marketing paths.''),
      (''C. Partner Enablement & Engagement'',
       ''Stand up a 30-60-90 enablement cadence: onboarding kit, monthly enablement call, quarterly MDF campaign.''),
      (''D. Sales & Operations Integration'',
       ''Separate channel pipeline tracking; define lead routing/quoting SLAs; add '' @ [CHR 0x27]
         @ ''channel'' @ [CHR 0x27] @ '' to forecast reviews.''),
      (''E. Growth Readiness'',
       ''Baseline partner P&L and capacity; set tooling minimums (PRM/CRM views) and resource triggers for 2''
         @ en_dash @ ''3'' @ times_sign @ '' growth.'')]"

definition generic_action :: "(string \<Rightarrow> string) \<Rightarrow> string \<Rightarrow> string" where
  "generic_action lower pname =
     ''Prioritize foundational improvements in '' @ lower pname @ '' to enable scale.''"

definition recommend_actions ::
  "(string \<Rightarrow> string) \<Rightarrow> pillar_score list \<Rightarrow> string list" where
  "recommend_actions lower ps =
     (let lows = py_first 3 (py_sorted (\<lambda>x. fst (snd x)) False ps)
      in map (\<lambda>p. py_get playbook (fst p) (generic_action lower (fst p))) lows)"

subsection \<open>Catalogs and scoring logic of \<^verbatim>\<open>XplainIQLite_Final.py\<close>\<close>

text \<open>
  The second source file defines the same names again. Its definitions are embedded on their
  own, with the suffix \<open>_Final\<close>, from the text of that file.
\<close>

definition PILLARS_Final :: "(string \<times> string list) list" where
  "PILLARS_Final =
     [(''A. Channel Strategy & Alignment'', [''A1'', ''A2'']),
      (''B. Partner Program Design'', [''B1'', ''B2'']),
      (''C. Partner Enablement & Engagement'', [''C1'', ''C2'']),
      (''D. Sales & Operations Integration'', [''D1'', ''D2'']),
      (''E. Growth Readiness'', [''E1'', ''E2''])]"

definition TIER_BANDS_Final :: "(string \<times> int \<times> int) list" where
  "TIER_BANDS_Final =
     [(''Emerging'', 0, 39),
      (''Developing'', 40, 59),
      (''Established'', 60, 79),
      (''Optimized'', 80, 100)]"

fun tier_scan_Final :: "int \<Rightarrow> (string \<times> int \<times> int) list \<Rightarrow> string" where
  "tier_scan_Final s [] = ''Unknown''"
| "tier_scan_Final s ((name, lo, hi) # bands) =
     (if lo \<le> s \<and> s \<le> hi then name else tier_scan_Final s bands)"

definition tier_for_Final :: "rat \<Rightarrow> string" where
  "tier_for_Final score = (let s = py_round score in tier_scan_Final s TIER_BANDS_Final)"

definition tier_for_float_Final :: "py_float \<Rightarrow> py_error + string" where
  "tier_for_float_Final score =
     (case py_round_float score of
        Inl e \<Rightarrow> Inl e
      | Inr s \<Rightarrow> Inr (tier_scan_Final s TIER_BANDS_Final))"

definition pillar_commentary_Final :: "string \<Rightarrow> rat \<Rightarrow> string" where
  "pillar_commentary_Final pillar_name pscore =
     (if 80 \<le> pscore then
        pillar_name @ '' is strong and scalable '' @ en_dash @ '' keep reinforcing what works.''
      else if 60 \<le> pscore then
        pillar_name @ '' shows a solid foundation with room to standardize and scale.''
      else if 40 \<le> pscore then
        pillar_name @ '' is emerging '' @ en_dash
          @ '' formalize structure, cadence, and measurement.''
      else
        pillar_name @ '' is underdeveloped '' @ en_dash
          @ '' prioritize core mechanics and minimum viable structure.'')"

definition pillar_entry_Final :: "answers \<Rightarrow> string \<times> string list \<Rightarrow> pillar_score" where
  "pillar_entry_Final answers p =
     (case p of (pname, qids) \<Rightarrow>
        let vals = map (\<lambda>q. py_get answers q 0) qids;
            pscore = (if vals = [] \<or> list_all (\<lambda>v. v = 0) vals then 0
                      else (of_int (sum_list vals) / of_nat (length vals)) / 5 * 100)
        in (pname, pscore, zip qids vals))"

definition compute_scores_Final :: "answers \<Rightarrow> py_error + (pillar_score list \<times> rat)" where
  "compute_scores_Final answers =
     (let pillar_scores = map (pillar_entry_Final answers) PILLARS_Final
      in if length pillar_scores = 0 then Inl ZeroDivisionError
         else Inr (pillar_scores,
                   sum_list (map (\<lambda>p. fst (snd p)) pillar_scores)
                     / of_nat (length pillar_scores)))"

definition derive_strengths_gaps_Final ::
  "pillar_score list \<Rightarrow> string list \<times> string list" where
  "derive_strengths_gaps_Final ps =
     (let sorted_p = py_sorted (\<lambda>x. fst (snd x)) True ps;
          strengths = map fst (py_first 2 sorted_p);
          gaps = map fst (py_last 3 sorted_p)
      in (strengths, gaps))"

definition playbook_Final :: "string \<rightharpoonup> string" where
  "playbook_Final = map_of
     [(''A. Channel Strategy & Alignment'',
       ''Clarify the partner role by segment and set a 12-month channel thesis with 3 measurable outcomes.''),
      (''B. Partner Program Design'',
       ''Publish a simple one-pager: tiers, incentives, rules of engagement, and co-marketing paths.''),
      (''C. Partner Enablement & Engagement'',
       ''Stand up a 30-60-90 enablement cadence: onboarding kit, monthly enablement call, quarterly MDF campaign.''),
      (''D. Sales & Operations Integration'',
       ''Separate channel pipeline tracking; define lead routing/quoting SLAs; add '' @ [CHR 0x27]
         @ ''channel'' @ [CHR 0x27] @ '' to forecast reviews.''),
      (''E. Growth Readiness'',
       ''Baseline partner P&L and capacity; set tooling minimums (PRM/CRM views) and resource triggers for 2''
         @ en_dash @ ''3'' @ times_sign @ '' growth.'')]"

definition generic_action_Final :: "(string \<Rightarrow> string) \<Rightarrow> string \<Rightarrow> string" where
  "generic_action_Final lower pname =
     ''Prioritize foundational improvements in '' @ lower pname @ '' to enable scale.''"

definition recommend_actions_Final ::
  "(string \<Rightarrow> string) \<Rightarrow> pillar_score list \<Rightarrow> string list" where
  "recommend_actions_Final lower ps =
     (let lows = py_first 3 (py_sorted (\<lambda>x. fst (snd x)) False ps)
      in map (\<lambda>p. py_get playbook_Final (fst p) (generic_action_Final lower (fst p))) lows)"

section \<open>Properties of the built-ins\<close>

lemma py_round_of_int: "py_round (of_int n) = n"
  by (simp add: py_round_def)

lemma py_round_near: "\<bar>of_int (py_round x) - x\<bar> \<le> 1 / 2"
proof -
  define d where "d = x - of_int \<lfloor>x\<rfloor>"
  have d: "0 \<le> d" "d < 1" unfolding d_def by linarith+
  have r: "py_round x = (if d < 1 / 2 then \<lfloor>x\<rfloor> else if 1 / 2 < d then \<lfloor>x\<rfloor> + 1
                         else if even \<lfloor>x\<rfloor> then \<lfloor>x\<rfloor> else \<lfloor>x\<rfloor> + 1)"
    by (simp add: py_round_def Let_def d_def)
  have x: "x = of_int \<lfloor>x\<rfloor> + d" by (simp add: d_def)
  have "\<bar>of_int (py_round x) - (of_int \<lfloor>x\<rfloor> + d)\<bar> \<le> 1 / 2"
    unfolding r using d by (simp add: abs_if)
  with x show ?thesis by simp
qed

lemma py_round_closest: "\<bar>of_int (py_round x) - x\<bar> \<le> \<bar>of_int n - x\<bar>"
proof (cases "n = py_round x")
  case True
  then show ?thesis by simp
next
  case False
  then have "1 \<le> \<bar>n - py_round x\<bar>" by linarith
  then have "1 \<le> \<bar>(of_int n :: rat) - of_int (py_round x)\<bar>"
    by (metis of_int_abs of_int_diff of_int_1_le_iff)
  with py_round_near [of x] show ?thesis by linarith
qed

lemma py_round_boundaries:
  "py_round (197 / 5) = 39" "py_round (79 / 2) = 40"
  "py_round (297 / 5) = 59" "py_round (119 / 2) = 60"
  "py_round (397 / 5) = 79" "py_round (159 / 2) = 80"
  "py_round (5545057041199923 / 140737488355328) = 39"
  "py_round (8359806808306483 / 140737488355328) = 59"
  "py_round (2793639143853261 / 35184372088832) = 79"
  by code_simp+

lemma mset_py_sorted: "mset (py_sorted k r xs) = mset xs"
  by (simp add: py_sorted_def)

lemma length_py_sorted: "length (py_sorted k r xs) = length xs"
  by (simp add: py_sorted_def)

lemma py_sorted_stable:
  "filter (\<lambda>y. k y = c) (py_sorted k r xs) = filter (\<lambda>y. k y = c) xs"
  by (simp add: py_sorted_def sort_key_stable flip: rev_filter)

lemma py_sorted_ascending: "sorted (map k (py_sorted k False xs))"
  by (simp add: py_sorted_def)

lemma py_sorted_descending: "sorted_wrt (\<lambda>a b. k b \<le> k a) (py_sorted k True xs)"
proof -
  have "sorted (map k (sort_key k (rev xs)))" by simp
  then have "sorted_wrt (\<lambda>a b. k a \<le> k b) (sort_key k (rev xs))"
    by (simp add: sorted_map)
  then show ?thesis
    by (simp add: py_sorted_def sorted_wrt_rev)
qed

lemma sorted_take_le_drop:
  assumes "sorted (map k xs)"
  shows "\<forall>p \<in> set (take n xs). \<forall>q \<in> set (drop n xs). k p \<le> k q"
proof -
  have "sorted (map k (take n xs) @ map k (drop n xs))"
    using assms by (simp flip: map_append)
  then show ?thesis by (auto simp: sorted_append)
qed

lemma py_get_range:
  fixes answers :: answers
  assumes "\<forall>q v. answers q = Some v \<longrightarrow> 1 \<le> v \<and> v \<le> 5"
  shows "0 \<le> py_get answers q 0 \<and> py_get answers q 0 \<le> 5"
proof (cases "answers q")
  case None
  then show ?thesis by (simp add: py_get_def)
next
  case (Some v)
  with assms have "1 \<le> v \<and> v \<le> 5" by blast
  with Some show ?thesis by (simp add: py_get_def)
qed


lemma ascii_lower_example: "ascii_lower ''Custom Pillar'' = ''custom pillar''"
  by code_simp

section \<open>Tier classification\<close>

lemma tier_scan_bands:
  "tier_scan s TIER_BANDS =
     (if 0 \<le> s \<and> s \<le> 39 then ''Emerging''
      else if 40 \<le> s \<and> s \<le> 59 then ''Developing''
      else if 60 \<le> s \<and> s \<le> 79 then ''Established''
      else if 80 \<le> s \<and> s \<le> 100 then ''Optimized''
      else ''Unknown'')"
  by (simp add: TIER_BANDS_def)

lemma tier_for_bands:
  "tier_for x =
     (if 0 \<le> py_round x \<and> py_round x \<le> 39 then ''Emerging''
      else if 40 \<le> py_round x \<and> py_round x \<le> 59 then ''Developing''
      else if 60 \<le> py_round x \<and> py_round x \<le> 79 then ''Established''
      else if 80 \<le> py_round x \<and> py_round x \<le> 100 then ''Optimized''
      else ''Unknown'')"
  by (simp add: tier_for_def Let_def tier_scan_bands)

text \<open>
  Claim C3. \<^verbatim>\<open>tier_for\<close> rounds its argument to a nearest integer (no integer \<open>n\<close> is
  closer to the score than the rounded value) and returns the name of the band of the
  table Emerging [0,39], Developing [40,59], Established [60,79], Optimized [80,100] that
  contains the rounded value, both ends included. At the three boundaries: 39.4 gives
  Emerging and 39.5 Developing, 59.4 Developing and 59.5 Established, 79.4 Established and
  79.5 Optimized. The scores 39.4, 59.4 and 79.4 are taken both as the decimal fractions
  and as the binary floating-point numbers nearest to them (the last three lines).
\<close>

theorem tier_for_rounds_into_bands:
  "\<bar>of_int (py_round x) - x\<bar> \<le> \<bar>of_int n - x\<bar>
   \<and> tier_for x =
       (if 0 \<le> py_round x \<and> py_round x \<le> 39 then ''Emerging''
        else if 40 \<le> py_round x \<and> py_round x \<le> 59 then ''Developing''
        else if 60 \<le> py_round x \<and> py_round x \<le> 79 then ''Established''
        else if 80 \<le> py_round x \<and> py_round x \<le> 100 then ''Optimized''
        else ''Unknown'')
   \<and> tier_for (197 / 5) = ''Emerging'' \<and> tier_for (79 / 2) = ''Developing''
   \<and> tier_for (297 / 5) = ''Developing'' \<and> tier_for (119 / 2) = ''Established''
   \<and> tier_for (397 / 5) = ''Established'' \<and> tier_for (159 / 2) = ''Optimized''
   \<and> tier_for (5545057041199923 / 140737488355328) = ''Emerging''
   \<and> tier_for (8359806808306483 / 140737488355328) = ''Developing''
   \<and> tier_for (2793639143853261 / 35184372088832) = ''Established''"
  by (simp add: py_round_closest tier_for_bands py_round_boundaries)

lemma tier_for_float_Finite: "tier_for_float (Finite x) = Inr (tier_for x)"
  by (simp add: tier_for_float_def py_round_float_def tier_for_def)

text \<open>
  Claim C8, in the form that holds of the code. \<^verbatim>\<open>tier_for\<close> returns for every finite
  score: when the rounded score lies in no band, that is below 0 or above 100, the result
  is the sentinel \<^verbatim>\<open>"Unknown"\<close>; when the rounded score lies between 0 and 100 the result
  is one of the four tier names and not the sentinel. The bands are contiguous and
  exhaustive: every integer between 0 and 100 lies in exactly one band of the table. On
  NaN and on the infinities \<^verbatim>\<open>round(score)\<close> raises, and \<^verbatim>\<open>tier_for\<close> with it.
\<close>

theorem tier_for_float_total_on_finite:
  "tier_for_float (Finite x) = Inr (tier_for x)
   \<and> (py_round x < 0 \<or> 100 < py_round x \<longrightarrow> tier_for_float (Finite x) = Inr ''Unknown'')
   \<and> (0 \<le> py_round x \<and> py_round x \<le> 100 \<longrightarrow>
        tier_for_float (Finite x) = Inr (tier_for x)
        \<and> tier_for x \<in> set (map fst TIER_BANDS) \<and> tier_for x \<noteq> ''Unknown'')
   \<and> (0 \<le> s \<and> s \<le> 100 \<longrightarrow>
        length (filter (\<lambda>b. fst (snd b) \<le> s \<and> s \<le> snd (snd b)) TIER_BANDS) = 1)
   \<and> tier_for_float NaN = Inl ValueError
   \<and> tier_for_float PosInf = Inl OverflowError
   \<and> tier_for_float NegInf = Inl OverflowError"
proof -
  have "tier_for_float NaN = Inl ValueError" "tier_for_float PosInf = Inl OverflowError"
    "tier_for_float NegInf = Inl OverflowError"
    by (simp_all add: tier_for_float_def py_round_float_def)
  then show ?thesis
    by (simp add: tier_for_float_Finite tier_for_bands TIER_BANDS_def)
qed

theorem tier_for_float_total_on_finite_witness:
  "tier_for_float (Finite 101) = Inr ''Unknown'' \<and> tier_for_float (Finite (-1)) = Inr ''Unknown''
   \<and> tier_for_float (Finite 68) = Inr (tier_for 68)
   \<and> tier_for 68 \<in> set (map fst TIER_BANDS) \<and> tier_for 68 \<noteq> ''Unknown''
   \<and> length (filter (\<lambda>b. fst (snd b) \<le> 40 \<and> 40 \<le> snd (snd b)) TIER_BANDS) = 1"
proof -
  have r: "py_round 101 = 101" "py_round (-1) = -1" "py_round 68 = 68"
    using py_round_of_int [of 101] py_round_of_int [of "-1"] py_round_of_int [of 68]
    by simp_all
  have a: "tier_for_float (Finite 101) = Inr ''Unknown''"
    using tier_for_float_total_on_finite [of 101 40, THEN conjunct2, THEN conjunct1] r(1)
    by simp
  have b: "tier_for_float (Finite (-1)) = Inr ''Unknown''"
    using tier_for_float_total_on_finite [of "-1" 40, THEN conjunct2, THEN conjunct1] r(2)
    by simp
  have c: "tier_for_float (Finite 68) = Inr (tier_for 68)
      \<and> tier_for 68 \<in> set (map fst TIER_BANDS) \<and> tier_for 68 \<noteq> ''Unknown''"
    using tier_for_float_total_on_finite
      [of 68 40, THEN conjunct2, THEN conjunct2, THEN conjunct1] r(3)
    by simp
  have d: "length (filter (\<lambda>b. fst (snd b) \<le> 40 \<and> 40 \<le> snd (snd b)) TIER_BANDS) = 1"
    using tier_for_float_total_on_finite
      [of 68 40, THEN conjunct2, THEN conjunct2, THEN conjunct2, THEN conjunct1]
    by simp
  from a b c d show ?thesis by blast
qed

text \<open>
  The reading of claim C8 for every float fails: on NaN \<^verbatim>\<open>tier_for\<close> raises
  \<^verbatim>\<open>ValueError\<close> and on either infinity \<^verbatim>\<open>OverflowError\<close>, instead of returning a tier
  name or the sentinel.
\<close>

theorem tier_for_float_nonfinite_counterexample:
  "tier_for_float NaN = Inl ValueError
   \<and> tier_for_float PosInf = Inl OverflowError
   \<and> tier_for_float NegInf = Inl OverflowError"
  by (simp add: tier_for_float_def py_round_float_def)

section \<open>Commentary\<close>

text \<open>
  Claim C9. For every pillar name and every (finite) score \<^verbatim>\<open>pillar_commentary\<close> returns
  one of four sentences with the pillar name in front: the first when the score is at
  least 80, the second when it is at least 60 and below 80, the third when it is at least
  40 and below 60, the fourth when it is below 40. The function has no error case. On
  the whole-number scores from 0 to 100 these are the bands of \<^verbatim>\<open>tier_for\<close> (last
  conjunct); \<^verbatim>\<open>tier_for\<close> rounds first, \<^verbatim>\<open>pillar_commentary\<close> compares the score itself.
\<close>

theorem pillar_commentary_bands:
  "(80 \<le> s \<longrightarrow> pillar_commentary n s =
       n @ '' is strong and scalable '' @ en_dash @ '' keep reinforcing what works.'')
   \<and> (60 \<le> s \<and> s < 80 \<longrightarrow> pillar_commentary n s =
       n @ '' shows a solid foundation with room to standardize and scale.'')
   \<and> (40 \<le> s \<and> s < 60 \<longrightarrow> pillar_commentary n s =
       n @ '' is emerging '' @ en_dash @ '' formalize structure, cadence, and measurement.'')
   \<and> (s < 40 \<longrightarrow> pillar_commentary n s =
       n @ '' is underdeveloped '' @ en_dash
         @ '' prioritize core mechanics and minimum viable structure.'')
   \<and> (0 \<le> k \<and> k \<le> 100 \<longrightarrow>
        (tier_for (of_int k) = ''Optimized'') = (80 \<le> k)
        \<and> (tier_for (of_int k) = ''Established'') = (60 \<le> k \<and> k < 80)
        \<and> (tier_for (of_int k) = ''Developing'') = (40 \<le> k \<and> k < 60)
        \<and> (tier_for (of_int k) = ''Emerging'') = (k < 40))"
  by (simp add: pillar_commentary_def tier_for_bands py_round_of_int)

theorem pillar_commentary_bands_witness:
  "pillar_commentary ''P'' 80 =
       ''P is strong and scalable '' @ en_dash @ '' keep reinforcing what works.''
   \<and> pillar_commentary ''P'' (159 / 2) =
       ''P shows a solid foundation with room to standardize and scale.''
   \<and> pillar_commentary ''P'' 40 =
       ''P is emerging '' @ en_dash @ '' formalize structure, cadence, and measurement.''
   \<and> pillar_commentary ''P'' (79 / 2) =
       ''P is underdeveloped '' @ en_dash
         @ '' prioritize core mechanics and minimum viable structure.''
   \<and> tier_for (of_int 80) = ''Optimized''"
  using pillar_commentary_bands [of 80 "''P''" 80]
    pillar_commentary_bands [of "159 / 2" "''P''" 80]
    pillar_commentary_bands [of 40 "''P''" 80]
    pillar_commentary_bands [of "79 / 2" "''P''" 80]
  by simp

section \<open>Score computation\<close>

lemma sum_list_bounds:
  fixes vs :: "int list"
  assumes "\<forall>v \<in> set vs. 0 \<le> v \<and> v \<le> 5"
  shows "0 \<le> sum_list vs \<and> sum_list vs \<le> 5 * int (length vs)"
  using assms by (induction vs) auto

lemma sum_list_mean_range:
  fixes xs :: "rat list"
  assumes "\<forall>x \<in> set xs. 0 \<le> x \<and> x \<le> c"
  shows "0 \<le> sum_list xs \<and> sum_list xs \<le> c * of_nat (length xs)"
  using assms by (induction xs) (auto simp: algebra_simps)

lemma pillar_entry_score_range:
  assumes "\<forall>q v. answers q = Some v \<longrightarrow> 1 \<le> v \<and> v \<le> 5"
  shows "0 \<le> fst (snd (pillar_entry answers p)) \<and> fst (snd (pillar_entry answers p)) \<le> 100"
proof -
  obtain pname qids where p: "p = (pname, qids)" by (cases p)
  define vals where "vals = map (\<lambda>q. py_get answers q 0) qids"
  have "\<forall>v \<in> set vals. 0 \<le> v \<and> v \<le> 5"
    using py_get_range [OF assms] by (auto simp: vals_def)
  then have s: "0 \<le> sum_list vals" "sum_list vals \<le> 5 * int (length vals)"
    using sum_list_bounds [of vals] by simp_all
  show ?thesis
  proof (cases "vals = [] \<or> list_all (\<lambda>v. v = 0) vals")
    case True
    then show ?thesis by (auto simp: p pillar_entry_def Let_def vals_def)
  next
    case False
    then have len: "0 < length vals" by simp
    define m :: rat where "m = of_int (sum_list vals) / of_nat (length vals)"
    have m0: "0 \<le> m" using s(1) by (simp add: m_def)
    have "(of_int (sum_list vals) :: rat) \<le> of_int (5 * int (length vals))"
      using s(2) by (simp only: of_int_le_iff)
    then have "(of_int (sum_list vals) :: rat) \<le> 5 * of_nat (length vals)" by simp
    then have m5: "m \<le> 5" using len by (simp add: m_def divide_le_eq)
    have "fst (snd (pillar_entry answers p)) = m / 5 * 100"
      using False by (simp add: p pillar_entry_def Let_def vals_def m_def)
    with m0 m5 show ?thesis by simp
  qed
qed

lemma pillar_entry_closed_form:
  "pillar_entry answers (pname, [q1, q2]) =
     (pname, 10 * of_int (py_get answers q1 0 + py_get answers q2 0),
      [(q1, py_get answers q1 0), (q2, py_get answers q2 0)])"
  by (simp add: pillar_entry_def Let_def)


text \<open>The catalog is not empty, so \<^verbatim>\<open>compute_scores\<close> never divides by zero.\<close>

lemma compute_scores_Inr:
  "compute_scores answers =
     Inr (map (pillar_entry answers) PILLARS,
          sum_list (map (\<lambda>p. fst (snd p)) (map (pillar_entry answers) PILLARS)) / 5)"
  by (simp add: compute_scores_def Let_def PILLARS_def)

text \<open>
  Claim C1. For every answer set whose ratings all lie between 1 and 5 (questions may be
  missing) \<^verbatim>\<open>compute_scores\<close> returns five pillar scores, each between 0 and 100, and an
  overall score between 0 and 100.
\<close>

theorem compute_scores_in_range:
  assumes "\<forall>q v. answers q = Some v \<longrightarrow> 1 \<le> v \<and> v \<le> 5"
  shows "\<exists>ps overall. compute_scores answers = Inr (ps, overall) \<and> length ps = 5
           \<and> list_all (\<lambda>p. 0 \<le> fst (snd p) \<and> fst (snd p) \<le> 100) ps
           \<and> 0 \<le> overall \<and> overall \<le> 100"
proof -
  define ps where "ps = map (pillar_entry answers) PILLARS"
  define overall where "overall = sum_list (map (\<lambda>p. fst (snd p)) ps) / 5"
  have len: "length ps = 5" by (simp add: ps_def PILLARS_def)
  have each: "\<forall>p \<in> set ps. 0 \<le> fst (snd p) \<and> fst (snd p) \<le> 100"
    using pillar_entry_score_range [OF assms] by (auto simp: ps_def)
  then have "\<forall>x \<in> set (map (\<lambda>p. fst (snd p)) ps). 0 \<le> x \<and> x \<le> 100" by simp
  from sum_list_mean_range [OF this] len
  have "0 \<le> overall \<and> overall \<le> 100" by (simp add: overall_def)
  moreover have "compute_scores answers = Inr (ps, overall)"
    by (simp add: compute_scores_Inr ps_def overall_def)
  moreover have "list_all (\<lambda>p. 0 \<le> fst (snd p) \<and> fst (snd p) \<le> 100) ps"
    using each by (simp add: list_all_iff)
  ultimately show ?thesis using len by blast
qed

theorem compute_scores_in_range_witness:
  "\<exists>ps overall.
     compute_scores (map_of [(''A1'', 5), (''B2'', 1), (''C1'', 3)]) = Inr (ps, overall)
     \<and> length ps = 5
     \<and> list_all (\<lambda>p. 0 \<le> fst (snd p) \<and> fst (snd p) \<le> 100) ps
     \<and> 0 \<le> overall \<and> overall \<le> 100"
proof -
  have "\<forall>q v. map_of [(''A1'', 5), (''B2'', 1), (''C1'', 3::int)] q = Some v
          \<longrightarrow> 1 \<le> v \<and> v \<le> 5"
    by (simp split: if_splits)
  from compute_scores_in_range [OF this] show ?thesis .
qed










text \<open>
  Claim C7. For the answer set A1:5, A2:5, B1:3, B2:3, C1:1, C2:1, D1:4, D2:2, E1:5, E2:5
  \<^verbatim>\<open>compute_scores\<close> gives the pillar scores 100, 60, 20, 60, 100 in catalog order and
  the overall score 68, and \<^verbatim>\<open>tier_for\<close> of 68 is Established.
\<close>

theorem compute_scores_example:
  "compute_scores (map_of [(''A1'', 5), (''A2'', 5), (''B1'', 3), (''B2'', 3), (''C1'', 1),
       (''C2'', 1), (''D1'', 4), (''D2'', 2), (''E1'', 5), (''E2'', 5)]) =
     Inr ([(''A. Channel Strategy & Alignment'', 100, [(''A1'', 5), (''A2'', 5)]),
           (''B. Partner Program Design'', 60, [(''B1'', 3), (''B2'', 3)]),
           (''C. Partner Enablement & Engagement'', 20, [(''C1'', 1), (''C2'', 1)]),
           (''D. Sales & Operations Integration'', 60, [(''D1'', 4), (''D2'', 2)]),
           (''E. Growth Readiness'', 100, [(''E1'', 5), (''E2'', 5)])], 68)
   \<and> tier_for 68 = ''Established''"
proof -
  have "py_round 68 = 68" using py_round_of_int [of 68] by simp
  then have "tier_for 68 = ''Established''" by (simp add: tier_for_bands)
  then show ?thesis
    by (simp add: compute_scores_Inr PILLARS_def pillar_entry_closed_form py_get_def)
qed

section \<open>Strengths, gaps and recommendations\<close>

lemma dom_playbook: "dom playbook = set (map fst PILLARS)"
  by (simp add: playbook_def PILLARS_def dom_map_of_conv_image_fst)

text \<open>
  Claim C5. For a list of five pillar tuples \<^verbatim>\<open>derive_strengths_gaps\<close> works on the list
  sorted by score, highest first, pillars of equal score staying in their input order
  (the sorted list is a permutation of the input, descending, and for every score \<open>c\<close> the
  pillars with that score appear as in the input). The strengths are the names of its
  first two elements and the gaps the names of its last three, so the gaps run from the
  least bad to the worst. Strengths and gaps together are the five names of the input,
  each position once; when the five names are distinct the two lists are disjoint and
  their union is the set of all five names.
\<close>

theorem derive_strengths_gaps_partition:
  assumes "length ps = 5"
  shows "mset (py_sorted (\<lambda>x. fst (snd x)) True ps) = mset ps
    \<and> sorted_wrt (\<lambda>a b. fst (snd b) \<le> fst (snd a)) (py_sorted (\<lambda>x. fst (snd x)) True ps)
    \<and> filter (\<lambda>p. fst (snd p) = c) (py_sorted (\<lambda>x. fst (snd x)) True ps)
        = filter (\<lambda>p. fst (snd p) = c) ps
    \<and> fst (derive_strengths_gaps ps) = map fst (take 2 (py_sorted (\<lambda>x. fst (snd x)) True ps))
    \<and> snd (derive_strengths_gaps ps) = map fst (drop 2 (py_sorted (\<lambda>x. fst (snd x)) True ps))
    \<and> length (fst (derive_strengths_gaps ps)) = 2
    \<and> length (snd (derive_strengths_gaps ps)) = 3
    \<and> mset (fst (derive_strengths_gaps ps) @ snd (derive_strengths_gaps ps)) = mset (map fst ps)
    \<and> (distinct (map fst ps) \<longrightarrow>
         set (fst (derive_strengths_gaps ps)) \<inter> set (snd (derive_strengths_gaps ps)) = {}
         \<and> set (fst (derive_strengths_gaps ps)) \<union> set (snd (derive_strengths_gaps ps))
             = set (map fst ps))"
proof -
  define sp where "sp = py_sorted (\<lambda>x. fst (snd x)) True ps"
  have len: "length sp = 5" using assms by (simp add: sp_def length_py_sorted)
  have m: "mset sp = mset ps" by (simp add: sp_def mset_py_sorted)
  have s: "fst (derive_strengths_gaps ps) = map fst (take 2 sp)"
    by (simp add: derive_strengths_gaps_def Let_def sp_def py_first_def)
  have g: "snd (derive_strengths_gaps ps) = map fst (drop 2 sp)"
    using len by (simp add: derive_strengths_gaps_def Let_def py_last_def flip: sp_def)
  have app: "fst (derive_strengths_gaps ps) @ snd (derive_strengths_gaps ps) = map fst sp"
    by (simp add: s g flip: map_append)
  have mn: "mset (map fst sp) = mset (map fst ps)"
    using m by (metis mset_map)
  have d: "set (fst (derive_strengths_gaps ps)) \<inter> set (snd (derive_strengths_gaps ps)) = {}
         \<and> set (fst (derive_strengths_gaps ps)) \<union> set (snd (derive_strengths_gaps ps))
             = set (map fst ps)" if "distinct (map fst ps)"
  proof -
    have "distinct (map fst sp)" using that mn by (metis mset_eq_imp_distinct_iff)
    then have "distinct (fst (derive_strengths_gaps ps) @ snd (derive_strengths_gaps ps))"
      by (simp only: app)
    then have "set (fst (derive_strengths_gaps ps)) \<inter> set (snd (derive_strengths_gaps ps)) = {}"
      by simp
    moreover have "set (fst (derive_strengths_gaps ps) @ snd (derive_strengths_gaps ps))
        = set (map fst ps)"
      unfolding app using mn by (metis set_mset_mset)
    ultimately show ?thesis by simp
  qed
  have l2: "length (fst (derive_strengths_gaps ps)) = 2" using len by (simp add: s)
  have l3: "length (snd (derive_strengths_gaps ps)) = 3" using len by (simp add: g)
  have "mset (fst (derive_strengths_gaps ps) @ snd (derive_strengths_gaps ps)) = mset (map fst ps)"
    by (simp only: app mn)
  with m s g l2 l3 d py_sorted_descending [of "\<lambda>x. fst (snd x)" ps]
    py_sorted_stable [of "\<lambda>x. fst (snd x)" c True ps]
  show ?thesis unfolding sp_def by blast
qed

theorem derive_strengths_gaps_partition_witness:
  "length [(''A. Channel Strategy & Alignment'', 100 :: rat, [(''A1'', 5 :: int), (''A2'', 5)]),
           (''B. Partner Program Design'', 60, [(''B1'', 3), (''B2'', 3)]),
           (''C. Partner Enablement & Engagement'', 20, [(''C1'', 1), (''C2'', 1)]),
           (''D. Sales & Operations Integration'', 60, [(''D1'', 4), (''D2'', 2)]),
           (''E. Growth Readiness'', 100, [(''E1'', 5), (''E2'', 5)])] = 5
   \<and> derive_strengths_gaps
         [(''A. Channel Strategy & Alignment'', 100, [(''A1'', 5), (''A2'', 5)]),
          (''B. Partner Program Design'', 60, [(''B1'', 3), (''B2'', 3)]),
          (''C. Partner Enablement & Engagement'', 20, [(''C1'', 1), (''C2'', 1)]),
          (''D. Sales & Operations Integration'', 60, [(''D1'', 4), (''D2'', 2)]),
          (''E. Growth Readiness'', 100, [(''E1'', 5), (''E2'', 5)])]
       = ([''A. Channel Strategy & Alignment'', ''E. Growth Readiness''],
          [''B. Partner Program Design'', ''D. Sales & Operations Integration'',
           ''C. Partner Enablement & Engagement''])
   \<and> set [''A. Channel Strategy & Alignment'', ''E. Growth Readiness'']
       \<inter> set [''B. Partner Program Design'', ''D. Sales & Operations Integration'',
           ''C. Partner Enablement & Engagement''] = {}"
  using derive_strengths_gaps_partition
    [of "[(''A. Channel Strategy & Alignment'', 100, [(''A1'', 5), (''A2'', 5)]),
          (''B. Partner Program Design'', 60, [(''B1'', 3), (''B2'', 3)]),
          (''C. Partner Enablement & Engagement'', 20, [(''C1'', 1), (''C2'', 1)]),
          (''D. Sales & Operations Integration'', 60, [(''D1'', 4), (''D2'', 2)]),
          (''E. Growth Readiness'', 100, [(''E1'', 5), (''E2'', 5)])]" 60]
  by (simp add: derive_strengths_gaps_def py_sorted_def py_first_def py_last_def)

text \<open>
  Claim C6. For a list of five pillar tuples \<^verbatim>\<open>recommend_actions\<close> returns exactly three
  strings, one for each of the first three pillars of the list sorted by score, lowest
  first, pillars of equal score staying in their input order; these three are the lowest
  scoring (no pillar left out scores below one of them). Each string is the playbook
  entry of the pillar's name, or, for a name the playbook does not have, the generic
  sentence built around the name as \<^verbatim>\<open>str.lower()\<close> returns it (\<open>lower\<close>, whatever that
  function does on the name). The playbook has an entry for exactly the five names of
  the catalog.
\<close>

theorem recommend_actions_three_lowest:
  assumes "length ps = 5"
  shows "mset (py_sorted (\<lambda>x. fst (snd x)) False ps) = mset ps
    \<and> sorted (map (\<lambda>x. fst (snd x)) (py_sorted (\<lambda>x. fst (snd x)) False ps))
    \<and> filter (\<lambda>p. fst (snd p) = c) (py_sorted (\<lambda>x. fst (snd x)) False ps)
        = filter (\<lambda>p. fst (snd p) = c) ps
    \<and> (\<forall>p \<in> set (take 3 (py_sorted (\<lambda>x. fst (snd x)) False ps)).
         \<forall>q \<in> set (drop 3 (py_sorted (\<lambda>x. fst (snd x)) False ps)). fst (snd p) \<le> fst (snd q))
    \<and> recommend_actions lower ps =
        map (\<lambda>p. case playbook (fst p) of
                    Some entry \<Rightarrow> entry
                  | None \<Rightarrow> ''Prioritize foundational improvements in '' @ lower (fst p)
                             @ '' to enable scale.'')
          (take 3 (py_sorted (\<lambda>x. fst (snd x)) False ps))
    \<and> length (recommend_actions lower ps) = 3
    \<and> dom playbook = set (map fst PILLARS)"
proof -
  define sa where "sa = py_sorted (\<lambda>x. fst (snd x)) False ps"
  have len: "length sa = 5" using assms by (simp add: sa_def length_py_sorted)
  have r: "recommend_actions lower ps =
        map (\<lambda>p. case playbook (fst p) of
                    Some entry \<Rightarrow> entry
                  | None \<Rightarrow> ''Prioritize foundational improvements in '' @ lower (fst p)
                             @ '' to enable scale.'')
          (take 3 sa)"
    by (simp only: recommend_actions_def Let_def py_first_def py_get_def generic_action_def sa_def)
  have l: "length (recommend_actions lower ps) = 3" using len by (simp add: r)
  have srt: "sorted (map (\<lambda>x. fst (snd x)) sa)" by (simp add: sa_def py_sorted_ascending)
  have low: "\<forall>p \<in> set (take 3 sa). \<forall>q \<in> set (drop 3 sa). fst (snd p) \<le> fst (snd q)"
    using sorted_take_le_drop [OF srt] .
  have m: "mset sa = mset ps" by (simp add: sa_def mset_py_sorted)
  have st: "filter (\<lambda>p. fst (snd p) = c) sa = filter (\<lambda>p. fst (snd p) = c) ps"
    by (simp add: sa_def py_sorted_stable)
  from m srt st low r l dom_playbook show ?thesis unfolding sa_def by blast
qed

theorem recommend_actions_three_lowest_witness:
  "length [(''A. Channel Strategy & Alignment'', 100 :: rat, [] :: detail),
           (''B. Partner Program Design'', 60, []),
           (''Custom Pillar'', 20, []),
           (''D. Sales & Operations Integration'', 60, []),
           (''E. Growth Readiness'', 100, [])] = 5
   \<and> recommend_actions ascii_lower
         [(''A. Channel Strategy & Alignment'', 100, []),
          (''B. Partner Program Design'', 60, []),
          (''Custom Pillar'', 20, []),
          (''D. Sales & Operations Integration'', 60, []),
          (''E. Growth Readiness'', 100, [])]
       = [''Prioritize foundational improvements in custom pillar to enable scale.'',
          ''Publish a simple one-pager: tiers, incentives, rules of engagement, and co-marketing paths.'',
          ''Separate channel pipeline tracking; define lead routing/quoting SLAs; add ''
            @ [CHR 0x27] @ ''channel'' @ [CHR 0x27] @ '' to forecast reviews.'']"
  using recommend_actions_three_lowest
    [of "[(''A. Channel Strategy & Alignment'', 100, []),
          (''B. Partner Program Design'', 60, []),
          (''Custom Pillar'', 20, []),
          (''D. Sales & Operations Integration'', 60, []),
          (''E. Growth Readiness'', 100, [])]" 60 ascii_lower]
  by (simp add: py_sorted_def playbook_def ascii_lower_example)

section \<open>The two source files\<close>

lemma tier_scan_Final_eq: "tier_scan_Final s bs = tier_scan s bs"
  by (induction s bs rule: tier_scan.induct) simp_all

lemma pillar_entry_Final_eq: "pillar_entry_Final = pillar_entry"
  by (intro ext) (simp add: pillar_entry_Final_def pillar_entry_def)

lemma generic_action_Final_eq: "generic_action_Final = generic_action"
  by (intro ext) (simp add: generic_action_Final_def generic_action_def)

text \<open>
  Claim C10. The scoring cores of the two source files are extensionally equal: the
  catalogs \<^verbatim>\<open>PILLARS\<close> and \<^verbatim>\<open>TIER_BANDS\<close> are the same, and on every input
  \<^verbatim>\<open>compute_scores\<close>, \<^verbatim>\<open>tier_for\<close>, \<^verbatim>\<open>derive_strengths_gaps\<close>, \<^verbatim>\<open>recommend_actions\<close>
  and \<^verbatim>\<open>pillar_commentary\<close> of \<^verbatim>\<open>XplainIQLite_Final.py\<close> return what the functions of
  the same names of \<^verbatim>\<open>XplainIQLite.py\<close> return (for \<^verbatim>\<open>tier_for\<close> also on NaN and the
  infinities, where both raise the same exception; for \<^verbatim>\<open>recommend_actions\<close> whatever
  \<^verbatim>\<open>str.lower()\<close> does).
\<close>

theorem final_core_equals_core:
  "PILLARS_Final = PILLARS \<and> TIER_BANDS_Final = TIER_BANDS
   \<and> compute_scores_Final answers = compute_scores answers
   \<and> tier_for_Final score = tier_for score
   \<and> tier_for_float_Final fscore = tier_for_float fscore
   \<and> derive_strengths_gaps_Final ps = derive_strengths_gaps ps
   \<and> recommend_actions_Final lower ps = recommend_actions lower ps
   \<and> pillar_commentary_Final pname score = pillar_commentary pname score"
proof -
  have p: "PILLARS_Final = PILLARS" by (simp add: PILLARS_Final_def PILLARS_def)
  have t: "TIER_BANDS_Final = TIER_BANDS" by (simp add: TIER_BANDS_Final_def TIER_BANDS_def)
  have b: "playbook_Final = playbook" by (simp add: playbook_Final_def playbook_def)
  have "compute_scores_Final answers = compute_scores answers"
    by (simp add: compute_scores_Final_def compute_scores_def p pillar_entry_Final_eq)
  moreover have "tier_for_Final score = tier_for score"
    by (simp add: tier_for_Final_def tier_for_def t tier_scan_Final_eq)
  moreover have "derive_strengths_gaps_Final ps = derive_strengths_gaps ps"
    by (simp add: derive_strengths_gaps_Final_def derive_strengths_gaps_def)
  moreover have "tier_for_float_Final fscore = tier_for_float fscore"
    by (simp add: tier_for_float_Final_def tier_for_float_def t tier_scan_Final_eq
        split: sum.split)
  moreover have "recommend_actions_Final lower ps = recommend_actions lower ps"
    by (simp add: recommend_actions_Final_def recommend_actions_def b generic_action_Final_eq)
  moreover have "pillar_commentary_Final pname score = pillar_commentary pname score"
    by (simp add: pillar_commentary_Final_def pillar_commentary_def)
  ultimately show ?thesis using p t by simp
qed

end
